theory Spec2Isabelle
  imports Main "HOL-Library.Word"
begin

section \<open>Data model\<close>

text \<open>
  The repository is two headers, \<^verbatim>\<open>src/RefCountable.hpp\<close> and
  \<^verbatim>\<open>src/unnamed/part_000\<close>, each declaring three class templates:
  \<^verbatim>\<open>RefCountable<T>\<close> (owns a \<^verbatim>\<open>T value\<close> and a
  \<^verbatim>\<open>std::atomic<size_t> counter\<close>), \<^verbatim>\<open>RefCountableBase<T>\<close> (holds a
  \<^verbatim>\<open>T& value\<close> and its own counter) and the handle \<^verbatim>\<open>RefCounted<T>\<close> (two
  \<^verbatim>\<open>std::reference_wrapper\<close>s: one to the value, one to the counter of its target).

  Objects live in a store and are named by their address; a C++ reference is the address
  of the object it refers to, tagged with the kind of object. The counter is a
  \<^verbatim>\<open>size_t\<close>, taken to be 64 bits wide as on the common 64-bit platforms: a word, so
  \<^verbatim>\<open>fetch_add\<close> and \<^verbatim>\<open>fetch_sub\<close> wrap around.
  The relaxed memory order plays no role in a sequential model: each \<^verbatim>\<open>fetch_add\<close>
  or \<^verbatim>\<open>fetch_sub\<close> is one atomic step on one counter.
\<close>

type_synonym addr = nat

type_synonym size_t = "64 word"

text \<open>A reference to a \<^verbatim>\<open>T\<close>: either a \<^verbatim>\<open>T\<close> owned outside the containers, or
  the \<^verbatim>\<open>value\<close> member of the \<^verbatim>\<open>RefCountable\<close> at the given address.\<close>

datatype t_ref = External addr | ValueOf addr

text \<open>A reference to a \<^verbatim>\<open>std::atomic<size_t>\<close>: the \<^verbatim>\<open>counter\<close> member of the
  \<^verbatim>\<open>RefCountable\<close>, or of the \<^verbatim>\<open>RefCountableBase\<close>, at the given address.\<close>

datatype counter_ref = CounterOf addr | BaseCounterOf addr

record 'v RefCountable =
  rc_value :: 'v
  rc_counter :: size_t

record RefCountableBase =
  base_value :: t_ref
  base_counter :: size_t

record RefCounted =
  ref_value :: t_ref
  ref_counter :: counter_ref

record 'v memory =
  objs :: "addr \<rightharpoonup> 'v"
  owning :: "addr \<rightharpoonup> 'v RefCountable"
  bases :: "addr \<rightharpoonup> RefCountableBase"
  handles :: "addr \<rightharpoonup> RefCounted"

text \<open>
  What a member function can do besides returning: \<^verbatim>\<open>std::terminate()\<close> (reached
  after \<^verbatim>\<open>assert(false && ...)\<close>, which itself aborts when assertions are compiled
  in), or use a reference whose object is no longer alive (undefined behaviour in C++,
  an explicit fault here).
\<close>

datatype fault = Terminate | DanglingReference

section \<open>The atomic counter\<close>

fun load_counter :: "'v memory \<Rightarrow> counter_ref \<Rightarrow> size_t option" where
  "load_counter m (CounterOf a) = map_option rc_counter (owning m a)"
| "load_counter m (BaseCounterOf a) = map_option base_counter (bases m a)"

fun fetch_add :: "counter_ref \<Rightarrow> size_t \<Rightarrow> 'v memory \<Rightarrow> fault + 'v memory" where
  "fetch_add (CounterOf a) k m =
     (case owning m a of
        None \<Rightarrow> Inl DanglingReference
      | Some c \<Rightarrow> Inr (m\<lparr>owning := (owning m)(a \<mapsto> c\<lparr>rc_counter := rc_counter c + k\<rparr>)\<rparr>))"
| "fetch_add (BaseCounterOf a) k m =
     (case bases m a of
        None \<Rightarrow> Inl DanglingReference
      | Some b \<Rightarrow> Inr (m\<lparr>bases := (bases m)(a \<mapsto> b\<lparr>base_counter := base_counter b + k\<rparr>)\<rparr>))"

fun fetch_sub :: "counter_ref \<Rightarrow> size_t \<Rightarrow> 'v memory \<Rightarrow> fault + 'v memory" where
  "fetch_sub (CounterOf a) k m =
     (case owning m a of
        None \<Rightarrow> Inl DanglingReference
      | Some c \<Rightarrow> Inr (m\<lparr>owning := (owning m)(a \<mapsto> c\<lparr>rc_counter := rc_counter c - k\<rparr>)\<rparr>))"
| "fetch_sub (BaseCounterOf a) k m =
     (case bases m a of
        None \<Rightarrow> Inl DanglingReference
      | Some b \<Rightarrow> Inr (m\<lparr>bases := (bases m)(a \<mapsto> b\<lparr>base_counter := base_counter b - k\<rparr>)\<rparr>))"

fun load_T :: "'v memory \<Rightarrow> t_ref \<Rightarrow> 'v option" where
  "load_T m (External a) = objs m a"
| "load_T m (ValueOf a) = map_option rc_value (owning m a)"

section \<open>RefCountable: the owning container\<close>

text \<open>
  \<^verbatim>\<open>RefCountable(Arg&&)\<close>, \<^verbatim>\<open>RefCountable(Arg1&&, Arg2&&, Args&&...)\<close> in
  \<^verbatim>\<open>RefCountable.hpp\<close> and \<^verbatim>\<open>RefCountable(Args&&...)\<close> in \<^verbatim>\<open>part_000\<close>:
  \<^verbatim>\<open>value{std::forward<Args>(args)...}, counter{0}\<close>. The argument \<open>v\<close> is the
  \<^verbatim>\<open>T\<close> that the forwarded arguments build.
\<close>

definition RefCountable_ctor :: "addr \<Rightarrow> 'v \<Rightarrow> 'v memory \<Rightarrow> fault + 'v memory" where
  "RefCountable_ctor self v m =
     Inr (m\<lparr>owning := (owning m)(self \<mapsto> \<lparr>rc_value = v, rc_counter = 0\<rparr>)\<rparr>)"

text \<open>
  The same constructor of \<^verbatim>\<open>part_000\<close>, \<^verbatim>\<open>template <typename... Args>
  RefCountable(Args &&...args)\<close>, when its one argument is itself a
  \<^verbatim>\<open>RefCountable<T>\<close>. \<^verbatim>\<open>RefCountable.hpp\<close> removes this case with
  \<^verbatim>\<open>enable_if_t<!is_same_v<decay_t<Arg>, RefCountable>>\<close>; \<^verbatim>\<open>part_000\<close> has no
  such guard, so \<^verbatim>\<open>value{std::forward<Args>(args)...}\<close> builds the \<^verbatim>\<open>T\<close> from the
  container. \<open>from_container\<close> is \<^verbatim>\<open>T\<close>'s constructor from a \<^verbatim>\<open>RefCountable<T>\<close>,
  as a function of the value that container holds; it is a parameter of the model (for a
  \<^verbatim>\<open>T\<close> that has none, \<^verbatim>\<open>unsigned\<close> say, the program is ill-formed).
\<close>

definition RefCountable_forwarding_ctor_part000 ::
  "('v \<Rightarrow> 'v) \<Rightarrow> addr \<Rightarrow> addr \<Rightarrow> 'v memory \<Rightarrow> fault + 'v memory" where
  "RefCountable_forwarding_ctor_part000 from_container self rhs m =
     (case owning m rhs of
        None \<Rightarrow> Inl DanglingReference
      | Some r \<Rightarrow> RefCountable_ctor self (from_container (rc_value r)) m)"

text \<open>\<^verbatim>\<open>RefCountable(const RefCountable &rhs) : value{rhs.value}, counter{0}\<close>
  (both files).\<close>

definition RefCountable_copy_ctor :: "addr \<Rightarrow> addr \<Rightarrow> 'v memory \<Rightarrow> fault + 'v memory" where
  "RefCountable_copy_ctor self rhs m =
     (case owning m rhs of
        None \<Rightarrow> Inl DanglingReference
      | Some r \<Rightarrow> Inr (m\<lparr>owning := (owning m)(self \<mapsto> \<lparr>rc_value = rc_value r, rc_counter = 0\<rparr>)\<rparr>))"

text \<open>
  \<^verbatim>\<open>RefCountable(RefCountable &&rhs) : value{std::move(rhs.value)}, counter{0}\<close>
  (\<^verbatim>\<open>RefCountable.hpp\<close> only). \<open>moved\<close> is the state in which \<^verbatim>\<open>T\<close>'s move
  operation leaves its source (the identity for \<^verbatim>\<open>int\<close>).
\<close>

definition RefCountable_move_ctor ::
  "('v \<Rightarrow> 'v) \<Rightarrow> addr \<Rightarrow> addr \<Rightarrow> 'v memory \<Rightarrow> fault + 'v memory" where
  "RefCountable_move_ctor moved self rhs m =
     (case owning m rhs of
        None \<Rightarrow> Inl DanglingReference
      | Some r \<Rightarrow>
          Inr (m\<lparr>owning := (owning m)
                 (rhs \<mapsto> r\<lparr>rc_value := moved (rc_value r)\<rparr>,
                  self \<mapsto> \<lparr>rc_value = rc_value r, rc_counter = 0\<rparr>)\<rparr>))"

text \<open>
  \<^verbatim>\<open>~RefCountable()\<close> (both files):
  \<^verbatim>\<open>if (counter.load(std::memory_order_relaxed) != 0) { assert(false && ...); std::terminate(); }\<close>.
  When the body returns, the lifetime of the object ends.
\<close>

definition RefCountable_dtor :: "addr \<Rightarrow> 'v memory \<Rightarrow> fault + 'v memory" where
  "RefCountable_dtor self m =
     (case owning m self of
        None \<Rightarrow> Inl DanglingReference
      | Some c \<Rightarrow>
          if rc_counter c \<noteq> 0 then Inl Terminate
          else Inr (m\<lparr>owning := (owning m)(self := None)\<rparr>))"

text \<open>\<^verbatim>\<open>T &get() { return value; }\<close>\<close>

definition RefCountable_get :: "addr \<Rightarrow> 'v memory \<Rightarrow> fault + t_ref" where
  "RefCountable_get self m =
     (case owning m self of None \<Rightarrow> Inl DanglingReference | Some c \<Rightarrow> Inr (ValueOf self))"

text \<open>\<^verbatim>\<open>RefCountable &operator=(const RefCountable &rhs) { value = rhs.value; return *this; }\<close>
  as \<^verbatim>\<open>RefCountable.hpp\<close> has it.\<close>

definition RefCountable_copy_assign :: "addr \<Rightarrow> addr \<Rightarrow> 'v memory \<Rightarrow> fault + 'v memory" where
  "RefCountable_copy_assign self rhs m =
     (case owning m self of
        None \<Rightarrow> Inl DanglingReference
      | Some c \<Rightarrow>
          (case owning m rhs of
             None \<Rightarrow> Inl DanglingReference
           | Some r \<Rightarrow> Inr (m\<lparr>owning := (owning m)(self \<mapsto> c\<lparr>rc_value := rc_value r\<rparr>)\<rparr>)))"

text \<open>
  The same operator as \<^verbatim>\<open>part_000\<close> has it:
  \<^verbatim>\<open>value = rhs.value(); return *this;\<close>. The right-hand side's value is invoked
  as a function object and the result is assigned. \<open>call\<close> is \<^verbatim>\<open>T\<close>'s
  \<^verbatim>\<open>operator()() const\<close>, a parameter of the model (for a \<^verbatim>\<open>T\<close> that has none
  the operator does not instantiate and cannot be used at all).
\<close>

definition RefCountable_copy_assign_part000 ::
  "('v \<Rightarrow> 'v) \<Rightarrow> addr \<Rightarrow> addr \<Rightarrow> 'v memory \<Rightarrow> fault + 'v memory" where
  "RefCountable_copy_assign_part000 call self rhs m =
     (case owning m self of
        None \<Rightarrow> Inl DanglingReference
      | Some c \<Rightarrow>
          (case owning m rhs of
             None \<Rightarrow> Inl DanglingReference
           | Some r \<Rightarrow> Inr (m\<lparr>owning := (owning m)(self \<mapsto> c\<lparr>rc_value := call (rc_value r)\<rparr>)\<rparr>)))"

text \<open>
  \<^verbatim>\<open>RefCountable &operator=(RefCountable &&rhs) { value = std::move(rhs.value); return *this; }\<close>
  (both files). \<^verbatim>\<open>T\<close>'s move assignment is taken to write the target and then to
  leave the source as \<open>moved\<close> says, in this order.
\<close>

definition RefCountable_move_assign ::
  "('v \<Rightarrow> 'v) \<Rightarrow> addr \<Rightarrow> addr \<Rightarrow> 'v memory \<Rightarrow> fault + 'v memory" where
  "RefCountable_move_assign moved self rhs m =
     (case owning m self of
        None \<Rightarrow> Inl DanglingReference
      | Some c \<Rightarrow>
          (case owning m rhs of
             None \<Rightarrow> Inl DanglingReference
           | Some r \<Rightarrow>
               Inr (m\<lparr>owning := (owning m)
                      (self \<mapsto> c\<lparr>rc_value := rc_value r\<rparr>,
                       rhs \<mapsto> r\<lparr>rc_value := moved (rc_value r)\<rparr>)\<rparr>)))"

text \<open>\<^verbatim>\<open>RefCountable &operator=(const T &rhs) { value = rhs; return *this; }\<close> and
  \<^verbatim>\<open>RefCountable &operator=(T &&rhs) { value = std::move(rhs); return *this; }\<close>
  (both files); \<open>v\<close> is the content of the right-hand side.\<close>

definition RefCountable_assign_T :: "addr \<Rightarrow> 'v \<Rightarrow> 'v memory \<Rightarrow> fault + 'v memory" where
  "RefCountable_assign_T self v m =
     (case owning m self of
        None \<Rightarrow> Inl DanglingReference
      | Some c \<Rightarrow> Inr (m\<lparr>owning := (owning m)(self \<mapsto> c\<lparr>rc_value := v\<rparr>)\<rparr>))"

definition RefCountable_assign_T_rvalue :: "addr \<Rightarrow> 'v \<Rightarrow> 'v memory \<Rightarrow> fault + 'v memory" where
  "RefCountable_assign_T_rvalue self v m =
     (case owning m self of
        None \<Rightarrow> Inl DanglingReference
      | Some c \<Rightarrow> Inr (m\<lparr>owning := (owning m)(self \<mapsto> c\<lparr>rc_value := v\<rparr>)\<rparr>))"

section \<open>RefCountableBase: the reference-holding container\<close>

text \<open>\<^verbatim>\<open>RefCountableBase(T &value) : value{value}, counter{0}\<close>\<close>

definition RefCountableBase_ctor :: "addr \<Rightarrow> t_ref \<Rightarrow> 'v memory \<Rightarrow> fault + 'v memory" where
  "RefCountableBase_ctor self v m =
     Inr (m\<lparr>bases := (bases m)(self \<mapsto> \<lparr>base_value = v, base_counter = 0\<rparr>)\<rparr>)"

text \<open>\<^verbatim>\<open>RefCountableBase(const RefCountableBase &rhs) : value{rhs.value}, counter{0}\<close>:
  the member is a reference, and the new one is bound to the object \<^verbatim>\<open>rhs.value\<close>
  refers to.\<close>

definition RefCountableBase_copy_ctor :: "addr \<Rightarrow> addr \<Rightarrow> 'v memory \<Rightarrow> fault + 'v memory" where
  "RefCountableBase_copy_ctor self rhs m =
     (case bases m rhs of
        None \<Rightarrow> Inl DanglingReference
      | Some r \<Rightarrow> Inr (m\<lparr>bases := (bases m)(self \<mapsto> \<lparr>base_value = base_value r, base_counter = 0\<rparr>)\<rparr>))"

text \<open>
  \<^verbatim>\<open>RefCountableBase(RefCountableBase &&rhs) : value{std::move(rhs.value)}, counter{0}\<close>.
  The member \<^verbatim>\<open>T &value\<close> is initialised from an xvalue. For a \<^verbatim>\<open>T\<close> that is not
  const-qualified a \<^verbatim>\<open>T&\<close> cannot bind to it: the constructor is ill-formed and no
  program can use it (\<open>None\<close>). For a const-qualified \<^verbatim>\<open>T\<close> the reference binds to
  the object \<^verbatim>\<open>rhs.value\<close> refers to, and nothing is moved. \<open>T_const\<close> says which
  of the two the instantiation is.
\<close>

definition RefCountableBase_move_ctor ::
  "bool \<Rightarrow> addr \<Rightarrow> addr \<Rightarrow> 'v memory \<Rightarrow> (fault + 'v memory) option" where
  "RefCountableBase_move_ctor T_const self rhs m =
     (if \<not> T_const then None
      else
        Some (case bases m rhs of
                None \<Rightarrow> Inl DanglingReference
              | Some r \<Rightarrow>
                  Inr (m\<lparr>bases := (bases m)
                         (self \<mapsto> \<lparr>base_value = base_value r, base_counter = 0\<rparr>)\<rparr>)))"

text \<open>\<^verbatim>\<open>~RefCountableBase()\<close>: the same body as \<^verbatim>\<open>~RefCountable()\<close>; declared
  \<^verbatim>\<open>protected virtual\<close> in \<^verbatim>\<open>RefCountable.hpp\<close> and public, not virtual, in
  \<^verbatim>\<open>part_000\<close>.\<close>

definition RefCountableBase_dtor :: "addr \<Rightarrow> 'v memory \<Rightarrow> fault + 'v memory" where
  "RefCountableBase_dtor self m =
     (case bases m self of
        None \<Rightarrow> Inl DanglingReference
      | Some b \<Rightarrow>
          if base_counter b \<noteq> 0 then Inl Terminate
          else Inr (m\<lparr>bases := (bases m)(self := None)\<rparr>))"

section \<open>RefCounted: the handle\<close>

text \<open>
  The constructors from a container, mutable or const, of either kind:
  \<^verbatim>\<open>RefCounted(RefCountable<U> &ref) : value{ref.value}, counter{ref.counter}\<close>,
  \<^verbatim>\<open>RefCounted(const RefCountable<U> &ref) : value{std::as_const(ref.value)}, counter{ref.counter}\<close>
  and the two for \<^verbatim>\<open>RefCountableBase<U>\<close>, each with the body
  \<^verbatim>\<open>counter.get().fetch_add(1, std::memory_order_relaxed);\<close>. The const overloads
  differ from the mutable ones in the type of the reference only, so one definition
  stands for both. (A \<^verbatim>\<open>reference_wrapper<T>\<close> cannot be made from a
  \<^verbatim>\<open>const T&\<close> unless \<^verbatim>\<open>T\<close> is const-qualified, so the const overloads
  instantiate for such \<^verbatim>\<open>T\<close> only; where they do, this is what they do.)
  \<open>self\<close> is the address of the handle under construction.
\<close>

definition RefCounted_from_RefCountable :: "addr \<Rightarrow> addr \<Rightarrow> 'v memory \<Rightarrow> fault + 'v memory" where
  "RefCounted_from_RefCountable self ref m =
     (case owning m ref of
        None \<Rightarrow> Inl DanglingReference
      | Some c \<Rightarrow>
          (let h = \<lparr>ref_value = ValueOf ref, ref_counter = CounterOf ref\<rparr>
           in fetch_add (ref_counter h) 1 (m\<lparr>handles := (handles m)(self \<mapsto> h)\<rparr>)))"

definition RefCounted_from_RefCountableBase :: "addr \<Rightarrow> addr \<Rightarrow> 'v memory \<Rightarrow> fault + 'v memory" where
  "RefCounted_from_RefCountableBase self ref m =
     (case bases m ref of
        None \<Rightarrow> Inl DanglingReference
      | Some b \<Rightarrow>
          (let h = \<lparr>ref_value = base_value b, ref_counter = BaseCounterOf ref\<rparr>
           in fetch_add (ref_counter h) 1 (m\<lparr>handles := (handles m)(self \<mapsto> h)\<rparr>)))"

text \<open>
  The three constructor templates from another handle,
  \<^verbatim>\<open>RefCounted(RefCounted<U> &rhs)\<close>, \<^verbatim>\<open>RefCounted(const RefCounted<U> &rhs)\<close> and
  \<^verbatim>\<open>RefCounted(RefCounted<U> &&rhs)\<close>: \<^verbatim>\<open>value{rhs.value}, counter{rhs.counter}\<close>
  and the same \<^verbatim>\<open>fetch_add(1)\<close>. The moved-from handle is not changed.
\<close>

definition RefCounted_from_RefCounted :: "addr \<Rightarrow> addr \<Rightarrow> 'v memory \<Rightarrow> fault + 'v memory" where
  "RefCounted_from_RefCounted self rhs m =
     (case handles m rhs of
        None \<Rightarrow> Inl DanglingReference
      | Some r \<Rightarrow>
          (let h = \<lparr>ref_value = ref_value r, ref_counter = ref_counter r\<rparr>
           in fetch_add (ref_counter h) 1 (m\<lparr>handles := (handles m)(self \<mapsto> h)\<rparr>)))"

text \<open>
  \<^verbatim>\<open>template <typename U> RefCounted &operator=(const RefCounted<U> &rhs)\<close>:
  \<^verbatim>\<open>if (this == &rhs) return *this;\<close>
  \<^verbatim>\<open>counter.get().fetch_sub(1, ...); value = rhs.value; counter = rhs.counter;\<close>
  \<^verbatim>\<open>counter.get().fetch_add(1, ...); return *this;\<close>
\<close>

definition RefCounted_assign :: "addr \<Rightarrow> addr \<Rightarrow> 'v memory \<Rightarrow> fault + 'v memory" where
  "RefCounted_assign self rhs m =
     (if self = rhs then Inr m
      else
        (case handles m self of
           None \<Rightarrow> Inl DanglingReference
         | Some l \<Rightarrow>
             (case handles m rhs of
                None \<Rightarrow> Inl DanglingReference
              | Some r \<Rightarrow>
                  (case fetch_sub (ref_counter l) 1 m of
                     Inl e \<Rightarrow> Inl e
                   | Inr m1 \<Rightarrow>
                       (let h = l\<lparr>ref_value := ref_value r, ref_counter := ref_counter r\<rparr>
                        in fetch_add (ref_counter h) 1
                             (m1\<lparr>handles := (handles m1)(self \<mapsto> h)\<rparr>))))))"

text \<open>\<^verbatim>\<open>~RefCounted() { counter.get().fetch_sub(1, std::memory_order_relaxed); }\<close>;
  then the lifetime of the handle ends.\<close>

definition RefCounted_dtor :: "addr \<Rightarrow> 'v memory \<Rightarrow> fault + 'v memory" where
  "RefCounted_dtor self m =
     (case handles m self of
        None \<Rightarrow> Inl DanglingReference
      | Some h \<Rightarrow>
          (case fetch_sub (ref_counter h) 1 m of
             Inl e \<Rightarrow> Inl e
           | Inr m1 \<Rightarrow> Inr (m1\<lparr>handles := (handles m1)(self := None)\<rparr>)))"

text \<open>\<^verbatim>\<open>T &get() { return value.get(); }\<close>\<close>

definition RefCounted_get :: "addr \<Rightarrow> 'v memory \<Rightarrow> fault + t_ref" where
  "RefCounted_get self m =
     (case handles m self of None \<Rightarrow> Inl DanglingReference | Some h \<Rightarrow> Inr (ref_value h))"

subsection \<open>The special member functions the class does not declare\<close>

text \<open>
  Every constructor of \<^verbatim>\<open>RefCounted\<close> that takes a handle, and its only
  \<^verbatim>\<open>operator=\<close>, is a member \<^emph>\<open>template\<close>. In C++ a template is never a copy
  constructor, a move constructor or a copy assignment operator, so the class declares
  none of them and the compiler declares them implicitly: a defaulted copy constructor
  \<^verbatim>\<open>RefCounted(const RefCounted&)\<close> and a defaulted copy assignment operator
  \<^verbatim>\<open>RefCounted& operator=(const RefCounted&)\<close> (no move operations: the class has a
  user-declared destructor). Both copy the two \<^verbatim>\<open>reference_wrapper\<close> members and
  touch no counter. (ISO C++, sections class.copy.ctor, class.copy.assign and
  over.match.best.)

  Overload resolution prefers a function that is not a template specialisation when the
  conversions are the same. Hence, for handles \<^verbatim>\<open>a\<close>, \<^verbatim>\<open>b\<close> of the same
  \<^verbatim>\<open>RefCounted<T>\<close>:
  \<^item> \<^verbatim>\<open>a = b\<close> calls the implicit copy assignment operator, whatever the value
    category of \<^verbatim>\<open>b\<close>; the template is reached only as \<^verbatim>\<open>a.operator=<T>(b)\<close>;
  \<^item> \<^verbatim>\<open>RefCounted<T> a(b)\<close> with \<^verbatim>\<open>b\<close> a const lvalue calls the implicit copy
    constructor; with \<^verbatim>\<open>b\<close> a non-const lvalue the template taking
    \<^verbatim>\<open>RefCounted<U>&\<close> is the better match, and with an rvalue the one taking
    \<^verbatim>\<open>RefCounted<U>&&\<close>.
  (For \<^verbatim>\<open>U\<close> other than \<^verbatim>\<open>T\<close> the templates do not compile: they read private
  members of another class.)
\<close>

definition RefCounted_implicit_copy_ctor :: "addr \<Rightarrow> addr \<Rightarrow> 'v memory \<Rightarrow> fault + 'v memory" where
  "RefCounted_implicit_copy_ctor self rhs m =
     (case handles m rhs of
        None \<Rightarrow> Inl DanglingReference
      | Some r \<Rightarrow>
          Inr (m\<lparr>handles := (handles m)
                 (self \<mapsto> \<lparr>ref_value = ref_value r, ref_counter = ref_counter r\<rparr>)\<rparr>))"

definition RefCounted_implicit_copy_assign :: "addr \<Rightarrow> addr \<Rightarrow> 'v memory \<Rightarrow> fault + 'v memory" where
  "RefCounted_implicit_copy_assign self rhs m =
     (case handles m self of
        None \<Rightarrow> Inl DanglingReference
      | Some l \<Rightarrow>
          (case handles m rhs of
             None \<Rightarrow> Inl DanglingReference
           | Some r \<Rightarrow>
               Inr (m\<lparr>handles := (handles m)
                      (self \<mapsto> l\<lparr>ref_value := ref_value r, ref_counter := ref_counter r\<rparr>)\<rparr>)))"

text \<open>The value category of the handle an expression copies from.\<close>

datatype category = Lvalue | ConstLvalue | Rvalue

text \<open>The constructor that \<^verbatim>\<open>RefCounted<T> a(b)\<close> selects, and the operator that
  \<^verbatim>\<open>a = b\<close> selects.\<close>

fun RefCounted_copy_init :: "category \<Rightarrow> addr \<Rightarrow> addr \<Rightarrow> 'v memory \<Rightarrow> fault + 'v memory" where
  "RefCounted_copy_init Lvalue self rhs m = RefCounted_from_RefCounted self rhs m"
| "RefCounted_copy_init ConstLvalue self rhs m = RefCounted_implicit_copy_ctor self rhs m"
| "RefCounted_copy_init Rvalue self rhs m = RefCounted_from_RefCounted self rhs m"

definition RefCounted_assign_expr :: "category \<Rightarrow> addr \<Rightarrow> addr \<Rightarrow> 'v memory \<Rightarrow> fault + 'v memory" where
  "RefCounted_assign_expr k self rhs m = RefCounted_implicit_copy_assign self rhs m"

subsection \<open>The constructor that a copy of a container selects\<close>

text \<open>
  \<^verbatim>\<open>RefCountable<T> c(a)\<close> in \<^verbatim>\<open>RefCountable.hpp\<close>: the forwarding constructor
  is guarded against an argument that is a \<^verbatim>\<open>RefCountable\<close>, so an lvalue, const or
  not, selects the copy constructor and an rvalue the move constructor.
\<close>

fun RefCountable_copy_init_hpp ::
  "('v \<Rightarrow> 'v) \<Rightarrow> category \<Rightarrow> addr \<Rightarrow> addr \<Rightarrow> 'v memory \<Rightarrow> fault + 'v memory" where
  "RefCountable_copy_init_hpp moved Lvalue self rhs m = RefCountable_copy_ctor self rhs m"
| "RefCountable_copy_init_hpp moved ConstLvalue self rhs m = RefCountable_copy_ctor self rhs m"
| "RefCountable_copy_init_hpp moved Rvalue self rhs m = RefCountable_move_ctor moved self rhs m"

text \<open>
  The same expression in \<^verbatim>\<open>part_000\<close>: for a const lvalue the copy constructor and
  the forwarding constructor (with \<^verbatim>\<open>Args = const RefCountable&\<close>) take the same
  parameter and the one that is not a template wins. For a non-const lvalue the
  forwarding constructor binds \<^verbatim>\<open>RefCountable&\<close>, less qualified than the copy
  constructor's \<^verbatim>\<open>const RefCountable&\<close>, and is the better match; for an rvalue
  it binds \<^verbatim>\<open>RefCountable&&\<close> and is the better match again (there is no move
  constructor).
\<close>

fun RefCountable_copy_init_part000 ::
  "('v \<Rightarrow> 'v) \<Rightarrow> category \<Rightarrow> addr \<Rightarrow> addr \<Rightarrow> 'v memory \<Rightarrow> fault + 'v memory" where
  "RefCountable_copy_init_part000 from_container Lvalue self rhs m =
     RefCountable_forwarding_ctor_part000 from_container self rhs m"
| "RefCountable_copy_init_part000 from_container ConstLvalue self rhs m =
     RefCountable_copy_ctor self rhs m"
| "RefCountable_copy_init_part000 from_container Rvalue self rhs m =
     RefCountable_forwarding_ctor_part000 from_container self rhs m"

section \<open>Observers of a state\<close>

text \<open>The live handles bound to a counter, and the invariant the counter is there for:
  every live counter holds the number of live handles bound to it.\<close>

definition bound_handles :: "'v memory \<Rightarrow> counter_ref \<Rightarrow> addr set" where
  "bound_handles m c = {h. \<exists>r. handles m h = Some r \<and> ref_counter r = c}"

definition count_inv :: "'v memory \<Rightarrow> bool" where
  "count_inv m \<longleftrightarrow>
     finite (dom (handles m)) \<and>
     (\<forall>c n. load_counter m c = Some n \<longrightarrow> unat n = card (bound_handles m c))"

section \<open>The two implementations side by side\<close>

text \<open>
  The member functions both files declare with the same signature and that instantiate
  for every \<^verbatim>\<open>T\<close>; an operation names the member function that runs, not the
  expression that selected it (\<open>CopyConstruct\<close> is the copy constructor
  \<^verbatim>\<open>RefCountable(const RefCountable&)\<close>). \<^verbatim>\<open>RefCountable.hpp\<close> declares one more,
  the move constructor of \<^verbatim>\<open>RefCountable\<close>, which \<^verbatim>\<open>part_000\<close> does not have,
  and guards its forwarding constructor, which \<^verbatim>\<open>part_000\<close> does not.
\<close>

datatype 'v operation =
    Construct addr 'v
  | CopyConstruct addr addr
  | Destroy addr
  | CopyAssign addr addr
  | MoveAssign addr addr
  | AssignT addr 'v
  | AssignTRvalue addr 'v
  | BaseConstruct addr t_ref
  | BaseCopyConstruct addr addr
  | BaseDestroy addr
  | Bind addr addr
  | BindBase addr addr
  | HandleFromHandle addr addr
  | HandleImplicitCopy addr addr
  | HandleAssign addr addr
  | HandleImplicitAssign addr addr
  | HandleDestroy addr

fun exec_hpp :: "('v \<Rightarrow> 'v) \<Rightarrow> 'v operation \<Rightarrow> 'v memory \<Rightarrow> fault + 'v memory" where
  "exec_hpp moved (Construct a v) m = RefCountable_ctor a v m"
| "exec_hpp moved (CopyConstruct a b) m = RefCountable_copy_ctor a b m"
| "exec_hpp moved (Destroy a) m = RefCountable_dtor a m"
| "exec_hpp moved (CopyAssign a b) m = RefCountable_copy_assign a b m"
| "exec_hpp moved (MoveAssign a b) m = RefCountable_move_assign moved a b m"
| "exec_hpp moved (AssignT a v) m = RefCountable_assign_T a v m"
| "exec_hpp moved (AssignTRvalue a v) m = RefCountable_assign_T_rvalue a v m"
| "exec_hpp moved (BaseConstruct a r) m = RefCountableBase_ctor a r m"
| "exec_hpp moved (BaseCopyConstruct a b) m = RefCountableBase_copy_ctor a b m"
| "exec_hpp moved (BaseDestroy a) m = RefCountableBase_dtor a m"
| "exec_hpp moved (Bind h a) m = RefCounted_from_RefCountable h a m"
| "exec_hpp moved (BindBase h a) m = RefCounted_from_RefCountableBase h a m"
| "exec_hpp moved (HandleFromHandle h g) m = RefCounted_from_RefCounted h g m"
| "exec_hpp moved (HandleImplicitCopy h g) m = RefCounted_implicit_copy_ctor h g m"
| "exec_hpp moved (HandleAssign h g) m = RefCounted_assign h g m"
| "exec_hpp moved (HandleImplicitAssign h g) m = RefCounted_implicit_copy_assign h g m"
| "exec_hpp moved (HandleDestroy h) m = RefCounted_dtor h m"

text \<open>\<^verbatim>\<open>part_000\<close>: the same bodies, text for text, but for the copy assignment
  operator of \<^verbatim>\<open>RefCountable\<close>.\<close>

fun exec_part000 ::
  "('v \<Rightarrow> 'v) \<Rightarrow> ('v \<Rightarrow> 'v) \<Rightarrow> 'v operation \<Rightarrow> 'v memory \<Rightarrow> fault + 'v memory" where
  "exec_part000 call moved (Construct a v) m = RefCountable_ctor a v m"
| "exec_part000 call moved (CopyConstruct a b) m = RefCountable_copy_ctor a b m"
| "exec_part000 call moved (Destroy a) m = RefCountable_dtor a m"
| "exec_part000 call moved (CopyAssign a b) m = RefCountable_copy_assign_part000 call a b m"
| "exec_part000 call moved (MoveAssign a b) m = RefCountable_move_assign moved a b m"
| "exec_part000 call moved (AssignT a v) m = RefCountable_assign_T a v m"
| "exec_part000 call moved (AssignTRvalue a v) m = RefCountable_assign_T_rvalue a v m"
| "exec_part000 call moved (BaseConstruct a r) m = RefCountableBase_ctor a r m"
| "exec_part000 call moved (BaseCopyConstruct a b) m = RefCountableBase_copy_ctor a b m"
| "exec_part000 call moved (BaseDestroy a) m = RefCountableBase_dtor a m"
| "exec_part000 call moved (Bind h a) m = RefCounted_from_RefCountable h a m"
| "exec_part000 call moved (BindBase h a) m = RefCounted_from_RefCountableBase h a m"
| "exec_part000 call moved (HandleFromHandle h g) m = RefCounted_from_RefCounted h g m"
| "exec_part000 call moved (HandleImplicitCopy h g) m = RefCounted_implicit_copy_ctor h g m"
| "exec_part000 call moved (HandleAssign h g) m = RefCounted_assign h g m"
| "exec_part000 call moved (HandleImplicitAssign h g) m = RefCounted_implicit_copy_assign h g m"
| "exec_part000 call moved (HandleDestroy h) m = RefCounted_dtor h m"

text \<open>A sequence of operations stops at the first fault, as the process does.\<close>

fun run ::
  "('v operation \<Rightarrow> 'v memory \<Rightarrow> fault + 'v memory) \<Rightarrow> 'v operation list \<Rightarrow> 'v memory
     \<Rightarrow> fault + 'v memory" where
  "run step [] m = Inr m"
| "run step (x # xs) m = (case step x m of Inl e \<Rightarrow> Inl e | Inr m1 \<Rightarrow> run step xs m1)"

section \<open>A concrete state\<close>

text \<open>
  Three owning containers of \<^verbatim>\<open>RefCountable<unsigned>\<close>: at address 1 holding 42 and
  observed by the handles at 10 and 13, at address 2 holding 7 and observed by the handle
  at 11, at address 3 holding 9 and not observed. Two reference-holding containers, at 4
  (not observed) and at 5 (observed by the handle at 12), both referring to the outside
  value 5 at address 20.
\<close>

definition example_state :: "nat memory" where
  "example_state =
     \<lparr>objs = [20 \<mapsto> 5],
      owning = [1 \<mapsto> \<lparr>rc_value = 42, rc_counter = 2\<rparr>,
                2 \<mapsto> \<lparr>rc_value = 7, rc_counter = 1\<rparr>,
                3 \<mapsto> \<lparr>rc_value = 9, rc_counter = 0\<rparr>],
      bases = [4 \<mapsto> \<lparr>base_value = External 20, base_counter = 0\<rparr>,
               5 \<mapsto> \<lparr>base_value = External 20, base_counter = 1\<rparr>],
      handles = [10 \<mapsto> \<lparr>ref_value = ValueOf 1, ref_counter = CounterOf 1\<rparr>,
                 11 \<mapsto> \<lparr>ref_value = ValueOf 2, ref_counter = CounterOf 2\<rparr>,
                 12 \<mapsto> \<lparr>ref_value = External 20, ref_counter = BaseCounterOf 5\<rparr>,
                 13 \<mapsto> \<lparr>ref_value = ValueOf 1, ref_counter = CounterOf 1\<rparr>]\<rparr>"

section \<open>The counter operations\<close>

lemma load_counter_handles_upd [simp]:
  "load_counter (m\<lparr>handles := hs\<rparr>) c = load_counter m c"
  by (cases c) simp_all

lemma load_T_handles_upd [simp]:
  "load_T (m\<lparr>handles := hs\<rparr>) v = load_T m v"
  by (cases v) simp_all

lemma load_T_bases_upd [simp]:
  "load_T (m\<lparr>bases := bs\<rparr>) v = load_T m v"
  by (cases v) simp_all

lemma load_counter_cases:
  "load_counter m c =
     (case c of
        CounterOf a \<Rightarrow> map_option rc_counter (owning m a)
      | BaseCounterOf a \<Rightarrow> map_option base_counter (bases m a))"
  by (cases c) simp_all

lemma load_counter_owning_upd:
  "load_counter (m\<lparr>owning := (owning m)(a \<mapsto> x)\<rparr>) c =
     (if c = CounterOf a then Some (rc_counter x) else load_counter m c)"
  by (cases c) auto

lemma load_counter_bases_upd:
  "load_counter (m\<lparr>bases := (bases m)(a \<mapsto> x)\<rparr>) c =
     (if c = BaseCounterOf a then Some (base_counter x) else load_counter m c)"
  by (cases c) auto

lemma load_counter_fetch_add:
  "fetch_add c k m = Inr m' \<Longrightarrow>
   load_counter m' c' =
     (if c' = c then map_option (\<lambda>n. n + k) (load_counter m c) else load_counter m c')"
  by (cases c; cases c') (auto split: option.splits)

lemma load_counter_fetch_sub:
  "fetch_sub c k m = Inr m' \<Longrightarrow>
   load_counter m' c' =
     (if c' = c then map_option (\<lambda>n. n - k) (load_counter m c) else load_counter m c')"
  by (cases c; cases c') (auto split: option.splits)

lemma fetch_add_frame:
  "fetch_add c k m = Inr m' \<Longrightarrow> handles m' = handles m \<and> objs m' = objs m"
  by (cases c) (auto split: option.splits)

lemma fetch_sub_frame:
  "fetch_sub c k m = Inr m' \<Longrightarrow> handles m' = handles m \<and> objs m' = objs m"
  by (cases c) (auto split: option.splits)

lemma fetch_add_live:
  "load_counter m c = Some n \<Longrightarrow> \<exists>m'. fetch_add c k m = Inr m'"
  by (cases c) (auto split: option.splits)

lemma fetch_sub_live:
  "load_counter m c = Some n \<Longrightarrow> \<exists>m'. fetch_sub c k m = Inr m'"
  by (cases c) (auto split: option.splits)

lemma fetch_add_dangling:
  "load_counter m c = None \<Longrightarrow> fetch_add c k m = Inl DanglingReference"
  by (cases c) (auto split: option.splits)

lemma fetch_sub_dangling:
  "load_counter m c = None \<Longrightarrow> fetch_sub c k m = Inl DanglingReference"
  by (cases c) (auto split: option.splits)

text \<open>Away from the two ends of \<^verbatim>\<open>size_t\<close> the counter counts as a natural number
  does.\<close>

lemma unat_pred_size_t:
  fixes n :: size_t
  assumes "n \<noteq> 0"
  shows "unat (n - 1) + 1 = unat n"
proof -
  from assms have "unat (n - 1) = unat n - 1" by (rule unat_minus_one)
  moreover from assms have "0 < unat n" by (simp add: unat_gt_0)
  ultimately show ?thesis by arith
qed

lemma unat_succ_size_t:
  fixes n :: size_t
  assumes "n + 1 \<noteq> 0"
  shows "unat (n + 1) = unat n + 1"
  using assms unatSuc [of n] by (simp add: add.commute)

section \<open>What each handle operation does to the store\<close>

lemma RefCounted_ctor_effect:
  "(\<forall>r. owning m c = Some r \<longrightarrow>
      (\<exists>m'. RefCounted_from_RefCountable h c m = Inr m' \<and>
            load_counter m' (CounterOf c) = Some (rc_counter r + 1) \<and>
            (\<forall>k. k \<noteq> CounterOf c \<longrightarrow> load_counter m' k = load_counter m k) \<and>
            handles m' = (handles m)(h \<mapsto> \<lparr>ref_value = ValueOf c, ref_counter = CounterOf c\<rparr>))) \<and>
   (\<forall>b. bases m c = Some b \<longrightarrow>
      (\<exists>m'. RefCounted_from_RefCountableBase h c m = Inr m' \<and>
            load_counter m' (BaseCounterOf c) = Some (base_counter b + 1) \<and>
            (\<forall>k. k \<noteq> BaseCounterOf c \<longrightarrow> load_counter m' k = load_counter m k) \<and>
            handles m' =
              (handles m)(h \<mapsto> \<lparr>ref_value = base_value b, ref_counter = BaseCounterOf c\<rparr>))) \<and>
   (\<forall>r n. handles m g = Some r \<longrightarrow> load_counter m (ref_counter r) = Some n \<longrightarrow>
      (\<exists>m'. RefCounted_from_RefCounted h g m = Inr m' \<and>
            load_counter m' (ref_counter r) = Some (n + 1) \<and>
            (\<forall>k. k \<noteq> ref_counter r \<longrightarrow> load_counter m' k = load_counter m k) \<and>
            handles m' = (handles m)(h \<mapsto> r)))"
proof (intro conjI allI impI)
  fix r assume "owning m c = Some r"
  then show "\<exists>m'. RefCounted_from_RefCountable h c m = Inr m' \<and>
            load_counter m' (CounterOf c) = Some (rc_counter r + 1) \<and>
            (\<forall>k. k \<noteq> CounterOf c \<longrightarrow> load_counter m' k = load_counter m k) \<and>
            handles m' = (handles m)(h \<mapsto> \<lparr>ref_value = ValueOf c, ref_counter = CounterOf c\<rparr>)"
    by (auto simp: RefCounted_from_RefCountable_def load_counter_cases split: counter_ref.splits)
next
  fix b assume "bases m c = Some b"
  then show "\<exists>m'. RefCounted_from_RefCountableBase h c m = Inr m' \<and>
            load_counter m' (BaseCounterOf c) = Some (base_counter b + 1) \<and>
            (\<forall>k. k \<noteq> BaseCounterOf c \<longrightarrow> load_counter m' k = load_counter m k) \<and>
            handles m' =
              (handles m)(h \<mapsto> \<lparr>ref_value = base_value b, ref_counter = BaseCounterOf c\<rparr>)"
    by (auto simp: RefCounted_from_RefCountableBase_def load_counter_cases
        split: counter_ref.splits)
next
  fix r n assume g: "handles m g = Some r" and n: "load_counter m (ref_counter r) = Some n"
  let ?m = "m\<lparr>handles := (handles m)(h \<mapsto> r)\<rparr>"
  have "load_counter ?m (ref_counter r) = Some n"
    using n by simp
  from fetch_add_live [OF this] obtain m' where
    m': "fetch_add (ref_counter r) 1 ?m = Inr m'"
    by blast
  have eta: "\<lparr>ref_value = ref_value r, ref_counter = ref_counter r\<rparr> = r"
    by simp
  from g n m' show "\<exists>m'. RefCounted_from_RefCounted h g m = Inr m' \<and>
            load_counter m' (ref_counter r) = Some (n + 1) \<and>
            (\<forall>k. k \<noteq> ref_counter r \<longrightarrow> load_counter m' k = load_counter m k) \<and>
            handles m' = (handles m)(h \<mapsto> r)"
    by (simp add: RefCounted_from_RefCounted_def eta load_counter_fetch_add [OF m']
        fetch_add_frame [OF m'])
qed

lemma RefCounted_dtor_effect:
  assumes h: "handles m h = Some r" and n: "load_counter m (ref_counter r) = Some n"
  shows "\<exists>m'. RefCounted_dtor h m = Inr m' \<and>
           (\<forall>c. load_counter m' c = (if c = ref_counter r then Some (n - 1) else load_counter m c)) \<and>
           handles m' = (handles m)(h := None)"
proof -
  from fetch_sub_live [OF n] obtain m1 where
    m1: "fetch_sub (ref_counter r) 1 m = Inr m1"
    by blast
  with h n show ?thesis
    by (simp add: RefCounted_dtor_def load_counter_fetch_sub [OF m1] fetch_sub_frame [OF m1])
qed

lemma RefCounted_assign_effect:
  assumes h1: "handles m h1 = Some r1" and h2: "handles m h2 = Some r2" and ne: "h1 \<noteq> h2"
    and a: "load_counter m (ref_counter r1) = Some na"
    and b: "load_counter m (ref_counter r2) = Some nb"
  shows "\<exists>m'. RefCounted_assign h1 h2 m = Inr m' \<and>
           (\<forall>c. load_counter m' c =
              (if ref_counter r1 = ref_counter r2 then load_counter m c
               else if c = ref_counter r1 then Some (na - 1)
               else if c = ref_counter r2 then Some (nb + 1)
               else load_counter m c)) \<and>
           handles m' = (handles m)(h1 \<mapsto> r2)"
proof -
  have r2: "r1\<lparr>ref_value := ref_value r2, ref_counter := ref_counter r2\<rparr> = r2"
    by simp
  let ?rebound = "\<lambda>m1. m1\<lparr>handles := (handles m1)(h1 \<mapsto> r2)\<rparr>"
  from fetch_sub_live [OF a] obtain m1 where
    m1: "fetch_sub (ref_counter r1) 1 m = Inr m1"
    by blast
  have "load_counter (?rebound m1) (ref_counter r2) =
          Some (if ref_counter r1 = ref_counter r2 then na - 1 else nb)"
    using a b by (simp add: load_counter_fetch_sub [OF m1])
  from fetch_add_live [OF this] obtain m2 where
    m2: "fetch_add (ref_counter r2) 1 (?rebound m1) = Inr m2"
    by blast
  have "load_counter m2 c =
          (if ref_counter r1 = ref_counter r2 then load_counter m c
           else if c = ref_counter r1 then Some (na - 1)
           else if c = ref_counter r2 then Some (nb + 1)
           else load_counter m c)" for c
    using a b by (simp add: load_counter_fetch_add [OF m2] load_counter_fetch_sub [OF m1])
  moreover have "handles m2 = (handles m)(h1 \<mapsto> r2)"
    by (simp add: fetch_add_frame [OF m2] fetch_sub_frame [OF m1])
  moreover have "RefCounted_assign h1 h2 m = Inr m2"
    using h1 h2 ne m1 m2 by (simp add: RefCounted_assign_def r2)
  ultimately show ?thesis
    by simp
qed

lemma RefCounted_assign_self: "RefCounted_assign h h m = Inr m"
  by (simp add: RefCounted_assign_def)

lemma RefCounted_implicit_copy_assign_self:
  "handles m h = Some r \<Longrightarrow> RefCounted_implicit_copy_assign h h m = Inr m"
  by (simp add: RefCounted_implicit_copy_assign_def map_upd_triv)

section \<open>Containers\<close>

subsection \<open>Destruction\<close>

text \<open>
  \<^bold>\<open>C1.\<close> Destroying a container, owning or reference-holding, terminates the process
  exactly when its observer count is not zero at that moment. With a count of zero the
  destructor returns, and the only change to the store is that the container is no
  longer alive: every other container, every handle and every outside value is as it was.
\<close>

theorem dtor_terminates_iff_count_nonzero:
  "(\<forall>c. owning m a = Some c \<longrightarrow>
      (RefCountable_dtor a m = Inl Terminate \<longleftrightarrow> rc_counter c \<noteq> 0) \<and>
      (rc_counter c = 0 \<longrightarrow> RefCountable_dtor a m = Inr (m\<lparr>owning := (owning m)(a := None)\<rparr>))) \<and>
   (\<forall>b. bases m a = Some b \<longrightarrow>
      (RefCountableBase_dtor a m = Inl Terminate \<longleftrightarrow> base_counter b \<noteq> 0) \<and>
      (base_counter b = 0 \<longrightarrow> RefCountableBase_dtor a m = Inr (m\<lparr>bases := (bases m)(a := None)\<rparr>)))"
  by (simp add: RefCountable_dtor_def RefCountableBase_dtor_def)

theorem dtor_terminates_iff_count_nonzero_witness:
  "RefCountable_dtor 1 example_state = Inl Terminate \<and>
   RefCountable_dtor 3 example_state =
     Inr (example_state\<lparr>owning := (owning example_state)(3 := None)\<rparr>) \<and>
   RefCountableBase_dtor 5 example_state = Inl Terminate \<and>
   RefCountableBase_dtor 4 example_state =
     Inr (example_state\<lparr>bases := (bases example_state)(4 := None)\<rparr>)"
  using dtor_terminates_iff_count_nonzero [of example_state 1]
    dtor_terminates_iff_count_nonzero [of example_state 3]
    dtor_terminates_iff_count_nonzero [of example_state 5]
    dtor_terminates_iff_count_nonzero [of example_state 4]
  by (simp add: example_state_def)

subsection \<open>Copy and move construction\<close>

text \<open>
  What the declared copy and move constructors do: the new container has an observer
  count of 0, whatever the count of the source is; it holds the source's value (the
  owning kind) or refers to the same outside value (the reference-holding kind); the
  source keeps its count, no other counter changes and no handle is touched, so the
  handles of the source stay bound to the source alone. After a move the source holds
  what \<^verbatim>\<open>T\<close>'s move leaves behind.
\<close>

lemma RefCountable_copy_ctor_effect:
  assumes "owning m rhs = Some r" and "self \<noteq> rhs"
  shows "\<exists>m'. RefCountable_copy_ctor self rhs m = Inr m' \<and>
           load_counter m' (CounterOf self) = Some 0 \<and>
           load_T m' (ValueOf self) = Some (rc_value r) \<and>
           load_counter m' (CounterOf rhs) = Some (rc_counter r) \<and>
           load_T m' (ValueOf rhs) = Some (rc_value r) \<and>
           (\<forall>c. c \<noteq> CounterOf self \<longrightarrow> load_counter m' c = load_counter m c) \<and>
           handles m' = handles m"
  using assms by (simp add: RefCountable_copy_ctor_def load_counter_owning_upd)

lemma RefCountable_move_ctor_effect:
  assumes "owning m rhs = Some r" and "self \<noteq> rhs"
  shows "\<exists>m'. RefCountable_move_ctor moved self rhs m = Inr m' \<and>
           load_counter m' (CounterOf self) = Some 0 \<and>
           load_T m' (ValueOf self) = Some (rc_value r) \<and>
           load_counter m' (CounterOf rhs) = Some (rc_counter r) \<and>
           load_T m' (ValueOf rhs) = Some (moved (rc_value r)) \<and>
           (\<forall>c. c \<noteq> CounterOf self \<longrightarrow> load_counter m' c = load_counter m c) \<and>
           handles m' = handles m"
  using assms
  by (auto simp: RefCountable_move_ctor_def load_counter_cases split: counter_ref.splits)

lemma RefCountableBase_copy_ctor_effect:
  assumes "bases m rhs = Some b" and "self \<noteq> rhs"
  shows "\<exists>m'. RefCountableBase_copy_ctor self rhs m = Inr m' \<and>
           bases m' self = Some \<lparr>base_value = base_value b, base_counter = 0\<rparr> \<and>
           bases m' rhs = Some b \<and>
           (\<forall>c. c \<noteq> BaseCounterOf self \<longrightarrow> load_counter m' c = load_counter m c) \<and>
           handles m' = handles m"
  using assms by (simp add: RefCountableBase_copy_ctor_def load_counter_bases_upd)

lemma RefCountableBase_move_ctor_effect:
  assumes "bases m rhs = Some b" and "self \<noteq> rhs"
  shows "RefCountableBase_move_ctor False self rhs m = None"
    and "\<exists>m'. RefCountableBase_move_ctor True self rhs m = Some (Inr m') \<and>
           bases m' self = Some \<lparr>base_value = base_value b, base_counter = 0\<rparr> \<and>
           bases m' rhs = Some b \<and>
           (\<forall>c. c \<noteq> BaseCounterOf self \<longrightarrow> load_counter m' c = load_counter m c) \<and>
           handles m' = handles m"
  using assms by (simp_all add: RefCountableBase_move_ctor_def load_counter_bases_upd)

text \<open>
  The forwarding constructor of \<^verbatim>\<open>part_000\<close>, given a container, also starts the
  count at 0 and leaves the source's count alone; but the value it stores is what
  \<^verbatim>\<open>T\<close>'s constructor makes of the container, not the source's value.
\<close>

lemma RefCountable_forwarding_ctor_part000_effect:
  assumes "owning m rhs = Some r" and "self \<noteq> rhs"
  shows "\<exists>m'. RefCountable_forwarding_ctor_part000 from_container self rhs m = Inr m' \<and>
           load_counter m' (CounterOf self) = Some 0 \<and>
           load_T m' (ValueOf self) = Some (from_container (rc_value r)) \<and>
           load_counter m' (CounterOf rhs) = Some (rc_counter r) \<and>
           load_T m' (ValueOf rhs) = Some (rc_value r) \<and>
           (\<forall>c. c \<noteq> CounterOf self \<longrightarrow> load_counter m' c = load_counter m c) \<and>
           handles m' = handles m"
  using assms
  by (simp add: RefCountable_forwarding_ctor_part000_def RefCountable_ctor_def
      load_counter_owning_upd)

text \<open>
  \<^bold>\<open>C8.\<close> The claim is that copy construction from a container (and move construction)
  gives a container with a count of 0 that copies or moves only the value and leaves the
  source's count alone. In \<^verbatim>\<open>part_000\<close> a copy from a container that is not const
  does not copy the value: \<^verbatim>\<open>RefCountable<W> c(a)\<close> selects the unguarded forwarding
  constructor, which hands the container \<^verbatim>\<open>a\<close> to \<^verbatim>\<open>W\<close>'s constructor. With a
  \<^verbatim>\<open>W\<close> whose constructor from a container adds 100 to what the container holds, the
  copy of the container at 1 (holding 42, count 2) holds 142; in \<^verbatim>\<open>RefCountable.hpp\<close>
  it holds 42. The count of the copy is 0 and the count of the source is still 2 in
  both.
\<close>

theorem part000_copy_of_mutable_container_builds_from_container:
  "\<exists>m1 m2. RefCountable_copy_init_part000 (\<lambda>v. v + 100) Lvalue 6 1 example_state = Inr m1 \<and>
          RefCountable_copy_init_hpp id Lvalue 6 1 example_state = Inr m2 \<and>
          load_T example_state (ValueOf 1) = Some 42 \<and>
          load_T m1 (ValueOf 6) = Some 142 \<and>
          load_T m2 (ValueOf 6) = Some 42 \<and>
          load_counter m1 (CounterOf 6) = Some 0 \<and>
          load_counter m2 (CounterOf 6) = Some 0 \<and>
          load_counter m1 (CounterOf 1) = Some 2 \<and>
          load_counter m2 (CounterOf 1) = Some 2"
  by (simp add: RefCountable_forwarding_ctor_part000_def RefCountable_ctor_def
      RefCountable_copy_ctor_def example_state_def)

subsection \<open>Assignment\<close>

text \<open>
  In \<^verbatim>\<open>RefCountable.hpp\<close> each of the four assignment operators stores the right-hand
  side's value and leaves every counter and every handle alone. (For the move
  assignment the target holds the source's value when the two are different objects.)
\<close>

lemma RefCountable_assign_replaces_value:
  "owning m a = Some c \<Longrightarrow> owning m b = Some r \<Longrightarrow>
   (\<exists>m'. RefCountable_copy_assign a b m = Inr m' \<and>
         load_T m' (ValueOf a) = Some (rc_value r) \<and>
         (\<forall>k. load_counter m' k = load_counter m k) \<and> handles m' = handles m) \<and>
   (\<exists>m'. RefCountable_move_assign moved a b m = Inr m' \<and>
         (a \<noteq> b \<longrightarrow> load_T m' (ValueOf a) = Some (rc_value r)) \<and>
         (\<forall>k. load_counter m' k = load_counter m k) \<and> handles m' = handles m) \<and>
   (\<exists>m'. RefCountable_assign_T a v m = Inr m' \<and>
         load_T m' (ValueOf a) = Some v \<and>
         (\<forall>k. load_counter m' k = load_counter m k) \<and> handles m' = handles m) \<and>
   (\<exists>m'. RefCountable_assign_T_rvalue a v m = Inr m' \<and>
         load_T m' (ValueOf a) = Some v \<and>
         (\<forall>k. load_counter m' k = load_counter m k) \<and> handles m' = handles m)"
  by (auto simp: RefCountable_copy_assign_def RefCountable_move_assign_def
      RefCountable_assign_T_def RefCountable_assign_T_rvalue_def load_counter_cases
      split: counter_ref.splits)

text \<open>In \<^verbatim>\<open>part_000\<close> the copy assignment leaves the counters alone as well, but what
  it stores is the result of calling the right-hand side's value.\<close>

lemma RefCountable_copy_assign_part000_effect:
  "owning m a = Some c \<Longrightarrow> owning m b = Some r \<Longrightarrow>
   \<exists>m'. RefCountable_copy_assign_part000 call a b m = Inr m' \<and>
        load_T m' (ValueOf a) = Some (call (rc_value r)) \<and>
        (\<forall>k. load_counter m' k = load_counter m k) \<and> handles m' = handles m"
  by (auto simp: RefCountable_copy_assign_part000_def load_counter_cases
      split: counter_ref.splits)

text \<open>
  \<^bold>\<open>C5.\<close> The claim is that every assignment to a container stores the right-hand
  side's value and leaves the count alone. The copy assignment operator of
  \<^verbatim>\<open>part_000\<close> does not: with \<^verbatim>\<open>T\<close> a function object whose call yields the next
  number (\<open>call = Suc\<close>), assigning the container that holds 7 to the container at
  address 1 stores 8. The count is left alone there too.
\<close>

theorem part000_copy_assign_stores_call_result:
  "\<exists>m'. RefCountable_copy_assign_part000 Suc 1 2 example_state = Inr m' \<and>
        load_T example_state (ValueOf 2) = Some 7 \<and>
        load_T m' (ValueOf 1) = Some 8 \<and>
        load_counter example_state (CounterOf 1) = Some 2 \<and>
        load_counter m' (CounterOf 1) = Some 2"
  by (simp add: RefCountable_copy_assign_part000_def example_state_def)

section \<open>Handles\<close>

subsection \<open>Construction\<close>

text \<open>
  \<^bold>\<open>C3.\<close> Each of the seven constructors the class declares increments the counter of
  its target by one and binds the new handle to it (\<open>RefCounted_ctor_effect\<close> above).
  The claim is about every way of constructing a handle, copying one included, and there
  it fails: copying from a const handle selects the implicitly declared copy constructor,
  which copies the two references and increments nothing. Below, the handle at 14 is
  copied from the handle at 10 seen through a const reference; afterwards it is bound to
  the container at 1, whose counter still holds 2.
\<close>

theorem handle_copy_from_const_skips_increment:
  "\<exists>m'. RefCounted_copy_init ConstLvalue 14 10 example_state = Inr m' \<and>
        handles example_state 14 = None \<and>
        handles m' 14 = Some \<lparr>ref_value = ValueOf 1, ref_counter = CounterOf 1\<rparr> \<and>
        load_counter example_state (CounterOf 1) = Some 2 \<and>
        load_counter m' (CounterOf 1) = Some 2"
  by (simp add: RefCounted_implicit_copy_ctor_def example_state_def)

subsection \<open>Destruction\<close>

text \<open>
  \<^bold>\<open>C4.\<close> The destructor of a live handle whose target is alive returns, and it
  decrements the counter the handle is bound to at that moment by one, once: the counter
  holds \<open>n - 1\<close> afterwards (in \<^verbatim>\<open>size_t\<close> arithmetic, which is the number one less
  whenever \<open>n\<close> is not zero), no other counter changes, and the handle is gone. How the
  handle came to be bound (which constructor, which assignment) is not looked at: only
  its \<^verbatim>\<open>counter\<close> member is.
\<close>

theorem RefCounted_dtor_decrements_once:
  "handles m h = Some r \<Longrightarrow> load_counter m (ref_counter r) = Some n \<Longrightarrow>
   \<exists>m'. RefCounted_dtor h m = Inr m' \<and>
        load_counter m' (ref_counter r) = Some (n - 1) \<and>
        (n \<noteq> 0 \<longrightarrow> unat (n - 1) + 1 = unat n) \<and>
        (\<forall>c. c \<noteq> ref_counter r \<longrightarrow> load_counter m' c = load_counter m c) \<and>
        handles m' = (handles m)(h := None)"
proof -
  assume h: "handles m h = Some r" and n: "load_counter m (ref_counter r) = Some n"
  from RefCounted_dtor_effect [OF h n] obtain m' where
    "RefCounted_dtor h m = Inr m'"
    "\<forall>c. load_counter m' c = (if c = ref_counter r then Some (n - 1) else load_counter m c)"
    "handles m' = (handles m)(h := None)"
    by blast
  moreover have "n \<noteq> 0 \<longrightarrow> unat (n - 1) + 1 = unat n"
    using unat_pred_size_t [of n] by simp
  ultimately show ?thesis
    by simp
qed

theorem RefCounted_dtor_decrements_once_witness:
  "\<exists>m'. RefCounted_dtor 10 example_state = Inr m' \<and>
        load_counter example_state (CounterOf 1) = Some 2 \<and>
        load_counter m' (CounterOf 1) = Some 1 \<and>
        load_counter m' (CounterOf 2) = Some 1 \<and>
        handles m' 10 = None \<and> handles m' 13 = handles example_state 13"
proof -
  let ?r = "\<lparr>ref_value = ValueOf 1, ref_counter = CounterOf 1\<rparr>"
  have live: "handles example_state 10 = Some ?r"
    by (simp add: example_state_def)
  have two: "load_counter example_state (ref_counter ?r) = Some 2"
    by (simp add: example_state_def)
  from RefCounted_dtor_decrements_once [OF live two] obtain m' where
    ret: "RefCounted_dtor 10 example_state = Inr m'" and
    one: "load_counter m' (ref_counter ?r) = Some (2 - 1)" and
    others: "\<forall>c. c \<noteq> ref_counter ?r \<longrightarrow> load_counter m' c = load_counter example_state c" and
    gone: "handles m' = (handles example_state)(10 := None)"
    by blast
  from spec [OF others, of "CounterOf 2"]
  have "load_counter m' (CounterOf 2) = load_counter example_state (CounterOf 2)"
    by simp
  then have "load_counter m' (CounterOf 2) = Some 1"
    by (simp add: example_state_def)
  with ret one two gone show ?thesis
    by simp
qed

subsection \<open>Binding and unbinding\<close>



subsection \<open>Assignment\<close>

text \<open>
  The \<^verbatim>\<open>operator=\<close> template, when it is the function called, does what its body
  says: nothing for a handle assigned from itself (\<open>RefCounted_assign_self\<close>), and
  otherwise one decrement of the old target, the rebinding, and one increment of the new
  target (\<open>RefCounted_assign_effect\<close>). Between two different counters that are neither
  at 0 nor at the maximum, the sum of the two counts stays the same.
\<close>

lemma RefCounted_assign_total:
  fixes na nb :: size_t
  assumes "na \<noteq> 0" and "nb + 1 \<noteq> 0"
  shows "unat (na - 1) + unat (nb + 1) = unat na + unat nb"
  using unat_pred_size_t [OF assms(1)] unat_succ_size_t [OF assms(2)] by simp

text \<open>
  \<^bold>\<open>C6.\<close> The claim is about copy-assigning one handle from another. The expression
  \<^verbatim>\<open>h1 = h2\<close> does not call the template: it calls the implicitly declared copy
  assignment operator, which rebinds the two references and touches no counter. Below,
  the handle at 10 (bound to the container at 1, count 2) is assigned from the handle at
  11 (bound to the container at 2, count 1): it is rebound to the container at 2, and the
  counts are still 2 and 1, where the claim has 1 and 2. Assigning a handle from itself
  changes nothing on either path.
\<close>

theorem handle_copy_assignment_skips_counters:
  "\<exists>m'. RefCounted_assign_expr Lvalue 10 11 example_state = Inr m' \<and>
        handles example_state 10 = Some \<lparr>ref_value = ValueOf 1, ref_counter = CounterOf 1\<rparr> \<and>
        handles example_state 11 = Some \<lparr>ref_value = ValueOf 2, ref_counter = CounterOf 2\<rparr> \<and>
        handles m' 10 = Some \<lparr>ref_value = ValueOf 2, ref_counter = CounterOf 2\<rparr> \<and>
        load_counter example_state (CounterOf 1) = Some 2 \<and>
        load_counter m' (CounterOf 1) = Some 2 \<and>
        load_counter example_state (CounterOf 2) = Some 1 \<and>
        load_counter m' (CounterOf 2) = Some 1"
  by (simp add: RefCounted_assign_expr_def RefCounted_implicit_copy_assign_def example_state_def)

text \<open>
  \<^bold>\<open>C10.\<close> Two different live handles bound to the same counter, that is to the same
  container: assigning the first from the second returns, leaves every counter as it was
  and leaves the first handle bound to that container (it now equals the second handle).
  This holds for the \<^verbatim>\<open>operator=\<close> template, whose decrement and increment hit the same
  counter, and for the operator that the expression \<^verbatim>\<open>h1 = h2\<close> selects, which touches
  no counter.
\<close>

theorem assign_between_handles_of_one_container:
  "handles m h1 = Some r1 \<Longrightarrow> handles m h2 = Some r2 \<Longrightarrow> h1 \<noteq> h2 \<Longrightarrow>
   ref_counter r1 = ref_counter r2 \<Longrightarrow> load_counter m (ref_counter r2) = Some n \<Longrightarrow>
   (\<exists>m'. RefCounted_assign h1 h2 m = Inr m' \<and>
         (\<forall>c. load_counter m' c = load_counter m c) \<and>
         handles m' = (handles m)(h1 \<mapsto> r2)) \<and>
   (\<exists>m'. RefCounted_assign_expr k h1 h2 m = Inr m' \<and>
         (\<forall>c. load_counter m' c = load_counter m c) \<and>
         handles m' = (handles m)(h1 \<mapsto> r2))"
proof -
  assume h1: "handles m h1 = Some r1" and h2: "handles m h2 = Some r2" and ne: "h1 \<noteq> h2"
    and same: "ref_counter r1 = ref_counter r2" and n: "load_counter m (ref_counter r2) = Some n"
  have r2: "r1\<lparr>ref_value := ref_value r2, ref_counter := ref_counter r2\<rparr> = r2"
    by simp
  from n same have n1: "load_counter m (ref_counter r1) = Some n"
    by simp
  from RefCounted_assign_effect [OF h1 h2 ne n1 n] same
  have "\<exists>m'. RefCounted_assign h1 h2 m = Inr m' \<and>
         (\<forall>c. load_counter m' c = load_counter m c) \<and>
         handles m' = (handles m)(h1 \<mapsto> r2)"
    by simp
  moreover have "RefCounted_assign_expr k h1 h2 m = Inr (m\<lparr>handles := (handles m)(h1 \<mapsto> r2)\<rparr>)"
    using h1 h2 by (simp add: RefCounted_assign_expr_def RefCounted_implicit_copy_assign_def r2)
  ultimately show ?thesis
    by simp
qed

theorem assign_between_handles_of_one_container_witness:
  "\<exists>m'. RefCounted_assign 10 13 example_state = Inr m' \<and>
        load_counter example_state (CounterOf 1) = Some 2 \<and>
        load_counter m' (CounterOf 1) = Some 2 \<and>
        handles m' 10 = Some \<lparr>ref_value = ValueOf 1, ref_counter = CounterOf 1\<rparr>"
proof -
  let ?r = "\<lparr>ref_value = ValueOf 1, ref_counter = CounterOf 1\<rparr>"
  have a: "handles example_state 10 = Some ?r" and b: "handles example_state 13 = Some ?r"
    by (simp_all add: example_state_def)
  have ne: "(10::nat) \<noteq> 13" by simp
  have two: "load_counter example_state (ref_counter ?r) = Some 2"
    by (simp add: example_state_def)
  from assign_between_handles_of_one_container [OF a b ne refl two]
  obtain m' where ret: "RefCounted_assign 10 13 example_state = Inr m'"
    and same: "\<forall>c. load_counter m' c = load_counter example_state c"
    and bound: "handles m' = (handles example_state)(10 \<mapsto> ?r)"
    by blast
  from spec [OF same, of "CounterOf 1"] two
  have "load_counter m' (CounterOf 1) = Some 2"
    by simp
  with ret two bound show ?thesis
    by simp
qed

section \<open>The count and the number of live handles\<close>

text \<open>
  The operations the class declares keep the invariant \<open>count_inv\<close>: a constructor
  adds one handle and one to the counter of its target (as long as that counter is not at
  the maximum of \<^verbatim>\<open>size_t\<close>), the destructor removes one handle and one from the
  counter, the \<^verbatim>\<open>operator=\<close> template does the one and then the other.
\<close>

lemma bound_handles_subset_dom: "bound_handles m c \<subseteq> dom (handles m)"
  by (auto simp: bound_handles_def)

lemma finite_bound_handles: "finite (dom (handles m)) \<Longrightarrow> finite (bound_handles m c)"
  using bound_handles_subset_dom by (rule finite_subset)

lemma bound_handles_bind:
  "handles m' = (handles m)(h \<mapsto> r) \<Longrightarrow>
   bound_handles m' c =
     (if ref_counter r = c then insert h (bound_handles m c) else bound_handles m c - {h})"
  by (auto simp: bound_handles_def)

lemma bound_handles_unbind:
  "handles m' = (handles m)(h := None) \<Longrightarrow> bound_handles m' c = bound_handles m c - {h}"
  by (auto simp: bound_handles_def)

lemma bound_handles_fresh: "handles m h = None \<Longrightarrow> h \<notin> bound_handles m c"
  by (simp add: bound_handles_def)

lemma bound_handles_live:
  "handles m h = Some r \<Longrightarrow> h \<in> bound_handles m c \<longleftrightarrow> ref_counter r = c"
  by (simp add: bound_handles_def)

lemma count_inv_bind:
  assumes inv: "count_inv m" and fresh: "handles m h = None"
    and hs: "handles m' = (handles m)(h \<mapsto> r)"
    and n: "load_counter m (ref_counter r) = Some n" and room: "n + 1 \<noteq> 0"
    and cs: "\<forall>k. load_counter m' k = (if k = ref_counter r then Some (n + 1) else load_counter m k)"
  shows "count_inv m'"
proof -
  from inv have fin: "finite (dom (handles m))"
    and cnt: "\<And>c k. load_counter m c = Some k \<Longrightarrow> unat k = card (bound_handles m c)"
    by (simp_all add: count_inv_def)
  have "unat k = card (bound_handles m' c)" if live: "load_counter m' c = Some k" for c k
  proof (cases "c = ref_counter r")
    case True
    with live cs have k: "k = n + 1" by simp
    have "card (bound_handles m' c) = Suc (card (bound_handles m c))"
      using True fresh fin by (simp add: bound_handles_bind [OF hs] bound_handles_fresh
          finite_bound_handles)
    with k True cnt [OF n] room show ?thesis
      by (simp add: unat_succ_size_t)
  next
    case False
    with live cs have "load_counter m c = Some k" by simp
    moreover from False fresh have "bound_handles m' c = bound_handles m c"
      by (auto simp: bound_handles_bind [OF hs] bound_handles_fresh)
    ultimately show ?thesis
      using cnt by simp
  qed
  moreover from fin hs have "finite (dom (handles m'))"
    by simp
  ultimately show ?thesis
    by (simp add: count_inv_def)
qed

lemma count_inv_unbind:
  assumes inv: "count_inv m" and h: "handles m h = Some r"
    and hs: "handles m' = (handles m)(h := None)"
    and n: "load_counter m (ref_counter r) = Some n"
    and cs: "\<forall>k. load_counter m' k = (if k = ref_counter r then Some (n - 1) else load_counter m k)"
  shows "count_inv m'"
proof -
  from inv have fin: "finite (dom (handles m))"
    and cnt: "\<And>c k. load_counter m c = Some k \<Longrightarrow> unat k = card (bound_handles m c)"
    by (simp_all add: count_inv_def)
  have "unat k = card (bound_handles m' c)" if live: "load_counter m' c = Some k" for c k
  proof (cases "c = ref_counter r")
    case True
    with live cs have k: "k = n - 1" by simp
    from h True have mem: "h \<in> bound_handles m c"
      by (simp add: bound_handles_live)
    with fin have pos: "0 < card (bound_handles m c)"
      by (auto simp: card_gt_0_iff finite_bound_handles)
    with cnt [OF n] True have "n \<noteq> 0"
      by auto
    then have "unat (n - 1) + 1 = unat n"
      by (rule unat_pred_size_t)
    moreover have "card (bound_handles m' c) = card (bound_handles m c) - 1"
      using mem fin by (simp add: bound_handles_unbind [OF hs] finite_bound_handles)
    ultimately show ?thesis
      using k True cnt [OF n] by simp
  next
    case False
    with live cs have "load_counter m c = Some k" by simp
    moreover from False h have "bound_handles m' c = bound_handles m c"
      by (auto simp: bound_handles_unbind [OF hs] bound_handles_live)
    ultimately show ?thesis
      using cnt by simp
  qed
  moreover from fin hs have "finite (dom (handles m'))"
    by simp
  ultimately show ?thesis
    by (simp add: count_inv_def)
qed


lemma count_inv_rebind_same:
  assumes inv: "count_inv m" and h: "handles m h = Some r1"
    and hs: "handles m' = (handles m)(h \<mapsto> r2)"
    and same: "ref_counter r1 = ref_counter r2"
    and cs: "\<forall>k. load_counter m' k = load_counter m k"
  shows "count_inv m'"
proof -
  have "bound_handles m' c = bound_handles m c" for c
    using h same by (auto simp: bound_handles_bind [OF hs] bound_handles_live)
  moreover from inv hs have "finite (dom (handles m'))"
    by (simp add: count_inv_def)
  ultimately show ?thesis
    using inv cs by (simp add: count_inv_def)
qed

lemma count_inv_RefCounted_ctor:
  assumes inv: "count_inv m" and fresh: "handles m h = None"
  shows "owning m c = Some r \<Longrightarrow> rc_counter r + 1 \<noteq> 0 \<Longrightarrow>
           RefCounted_from_RefCountable h c m = Inr m' \<Longrightarrow> count_inv m'"
    and "bases m c = Some b \<Longrightarrow> base_counter b + 1 \<noteq> 0 \<Longrightarrow>
           RefCounted_from_RefCountableBase h c m = Inr m' \<Longrightarrow> count_inv m'"
    and "handles m g = Some q \<Longrightarrow> load_counter m (ref_counter q) = Some n \<Longrightarrow> n + 1 \<noteq> 0 \<Longrightarrow>
           RefCounted_from_RefCounted h g m = Inr m' \<Longrightarrow> count_inv m'"
proof -
  note eff = RefCounted_ctor_effect [of m c h g]
  {
    assume c: "owning m c = Some r" and room: "rc_counter r + 1 \<noteq> 0"
      and ret: "RefCounted_from_RefCountable h c m = Inr m'"
    let ?r = "\<lparr>ref_value = ValueOf c, ref_counter = CounterOf c\<rparr>"
    from eff c ret have
      "load_counter m' (CounterOf c) = Some (rc_counter r + 1)"
      "\<forall>k. k \<noteq> CounterOf c \<longrightarrow> load_counter m' k = load_counter m k"
      "handles m' = (handles m)(h \<mapsto> ?r)"
      by auto
    then show "count_inv m'"
      using c room by (intro count_inv_bind [OF inv fresh, of m' ?r "rc_counter r"]) auto
  next
    assume b: "bases m c = Some b" and room: "base_counter b + 1 \<noteq> 0"
      and ret: "RefCounted_from_RefCountableBase h c m = Inr m'"
    let ?r = "\<lparr>ref_value = base_value b, ref_counter = BaseCounterOf c\<rparr>"
    from eff b ret have
      "load_counter m' (BaseCounterOf c) = Some (base_counter b + 1)"
      "\<forall>k. k \<noteq> BaseCounterOf c \<longrightarrow> load_counter m' k = load_counter m k"
      "handles m' = (handles m)(h \<mapsto> ?r)"
      by auto
    then show "count_inv m'"
      using b room by (intro count_inv_bind [OF inv fresh, of m' ?r "base_counter b"]) auto
  next
    assume g: "handles m g = Some q" and n: "load_counter m (ref_counter q) = Some n"
      and room: "n + 1 \<noteq> 0" and ret: "RefCounted_from_RefCounted h g m = Inr m'"
    from eff g n ret have
      "load_counter m' (ref_counter q) = Some (n + 1)"
      "\<forall>k. k \<noteq> ref_counter q \<longrightarrow> load_counter m' k = load_counter m k"
      "handles m' = (handles m)(h \<mapsto> q)"
      by auto
    then show "count_inv m'"
      using n room by (intro count_inv_bind [OF inv fresh, of m' q n]) auto
  }
qed

lemma count_inv_RefCounted_dtor:
  assumes inv: "count_inv m" and ret: "RefCounted_dtor h m = Inr m'"
  shows "count_inv m'"
proof -
  from ret obtain r where h: "handles m h = Some r"
    by (auto simp: RefCounted_dtor_def split: option.splits)
  with ret obtain n where n: "load_counter m (ref_counter r) = Some n"
    by (cases "load_counter m (ref_counter r)")
      (auto simp: RefCounted_dtor_def fetch_sub_dangling)
  from RefCounted_dtor_effect [OF h n] ret show ?thesis
    by (intro count_inv_unbind [OF inv h _ n]) auto
qed

lemma count_inv_RefCounted_assign:
  assumes inv: "count_inv m" and ret: "RefCounted_assign h1 h2 m = Inr m'"
    and room: "\<And>r n. handles m h2 = Some r \<Longrightarrow> load_counter m (ref_counter r) = Some n \<Longrightarrow>
                 n + 1 \<noteq> 0"
  shows "count_inv m'"
proof (cases "h1 = h2")
  case True
  with ret inv show ?thesis
    by (simp add: RefCounted_assign_self)
next
  case ne: False
  from ret ne obtain r1 r2 where h1: "handles m h1 = Some r1" and h2: "handles m h2 = Some r2"
    by (auto simp: RefCounted_assign_def split: option.splits)
  from ret ne h1 h2 obtain na where a: "load_counter m (ref_counter r1) = Some na"
    by (cases "load_counter m (ref_counter r1)")
      (auto simp: RefCounted_assign_def fetch_sub_dangling)
  have "load_counter m (ref_counter r2) \<noteq> None"
  proof
    assume none: "load_counter m (ref_counter r2) = None"
    from fetch_sub_live [OF a] obtain m1 where m1: "fetch_sub (ref_counter r1) 1 m = Inr m1"
      by blast
    from none a have "load_counter (m1\<lparr>handles := (handles m1)(h1 \<mapsto> r2)\<rparr>) (ref_counter r2) = None"
      by (auto simp: load_counter_fetch_sub [OF m1] split: if_splits)
    moreover have "r1\<lparr>ref_value := ref_value r2, ref_counter := ref_counter r2\<rparr> = r2"
      by simp
    ultimately show False
      using ret ne h1 h2 m1 by (simp add: RefCounted_assign_def fetch_add_dangling)
  qed
  then obtain nb where b: "load_counter m (ref_counter r2) = Some nb"
    by auto
  from RefCounted_assign_effect [OF h1 h2 ne a b] ret have
    cs: "\<forall>c. load_counter m' c =
              (if ref_counter r1 = ref_counter r2 then load_counter m c
               else if c = ref_counter r1 then Some (na - 1)
               else if c = ref_counter r2 then Some (nb + 1)
               else load_counter m c)"
    and hs: "handles m' = (handles m)(h1 \<mapsto> r2)"
    by auto
  show ?thesis
  proof (cases "ref_counter r1 = ref_counter r2")
    case True
    with cs have "\<forall>k. load_counter m' k = load_counter m k"
      by simp
    from count_inv_rebind_same [OF inv h1 hs True this] show ?thesis .
  next
    case False
    from RefCounted_dtor_effect [OF h1 a] obtain m1 where
      d: "RefCounted_dtor h1 m = Inr m1"
      and cs1: "\<forall>c. load_counter m1 c = (if c = ref_counter r1 then Some (na - 1) else load_counter m c)"
      and hs1: "handles m1 = (handles m)(h1 := None)"
      by blast
    from count_inv_RefCounted_dtor [OF inv d] have inv1: "count_inv m1" .
    from hs1 have fresh: "handles m1 h1 = None"
      by simp
    from hs hs1 have hs': "handles m' = (handles m1)(h1 \<mapsto> r2)"
      by simp
    from cs1 b False have b1: "load_counter m1 (ref_counter r2) = Some nb"
      by simp
    from cs cs1 False have
      "\<forall>k. load_counter m' k = (if k = ref_counter r2 then Some (nb + 1) else load_counter m1 k)"
      by auto
    from count_inv_bind [OF inv1 fresh hs' b1 room [OF h2 b] this] show ?thesis .
  qed
qed

text \<open>The invariant holds in the example state.\<close>

lemma bound_handles_example:
  "bound_handles example_state (CounterOf 1) = {10, 13}"
  "bound_handles example_state (CounterOf 2) = {11}"
  "bound_handles example_state (CounterOf 3) = {}"
  "bound_handles example_state (BaseCounterOf 4) = {}"
  "bound_handles example_state (BaseCounterOf 5) = {12}"
  by (auto simp: bound_handles_def example_state_def split: if_splits)

lemma count_inv_example_state: "count_inv example_state"
proof -
  have fin: "finite (dom (handles example_state))"
    by (simp add: example_state_def)
  have "unat n = card (bound_handles example_state c)"
    if live: "load_counter example_state c = Some n" for c n
  proof (cases c)
    case (CounterOf a)
    with live have "a = 1 \<and> n = 2 \<or> a = 2 \<and> n = 1 \<or> a = 3 \<and> n = 0"
      by (auto simp: example_state_def split: if_splits)
    with CounterOf bound_handles_example show ?thesis
      by auto
  next
    case (BaseCounterOf a)
    with live have "a = 4 \<and> n = 0 \<or> a = 5 \<and> n = 1"
      by (auto simp: example_state_def split: if_splits)
    with BaseCounterOf bound_handles_example show ?thesis
      by auto
  qed
  with fin show ?thesis
    by (simp add: count_inv_def)
qed

text \<open>
  \<^bold>\<open>C2.\<close> The claim is that the count of a container is the number of live handles
  bound to it between any two operations, every handle operation keeping it so. The
  operations the class declares do (the lemmas above); the two the compiler declares for
  it do not. In the example state every count is the number of bound handles. After the
  reassignment \<^verbatim>\<open>h1 = h2\<close> of the handle at 10 from the handle at 11, the container at
  1 has a count of 2 and one handle, and the container at 2 a count of 1 and two handles.
\<close>

theorem count_differs_after_handle_assignment:
  "\<exists>m'. RefCounted_assign_expr Lvalue 10 11 example_state = Inr m' \<and>
        load_counter example_state (CounterOf 1) = Some 2 \<and>
        card (bound_handles example_state (CounterOf 1)) = 2 \<and>
        load_counter example_state (CounterOf 2) = Some 1 \<and>
        card (bound_handles example_state (CounterOf 2)) = 1 \<and>
        load_counter m' (CounterOf 1) = Some 2 \<and>
        card (bound_handles m' (CounterOf 1)) = 1 \<and>
        load_counter m' (CounterOf 2) = Some 1 \<and>
        card (bound_handles m' (CounterOf 2)) = 2"
proof -
  let ?m = "example_state\<lparr>handles := (handles example_state)
              (10 \<mapsto> \<lparr>ref_value = ValueOf 2, ref_counter = CounterOf 2\<rparr>)\<rparr>"
  have ret: "RefCounted_assign_expr Lvalue 10 11 example_state = Inr ?m"
    by (simp add: RefCounted_assign_expr_def RefCounted_implicit_copy_assign_def example_state_def)
  have a: "bound_handles ?m (CounterOf 1) = {13}"
    by (auto simp: bound_handles_def example_state_def split: if_splits)
  have b: "bound_handles ?m (CounterOf 2) = {10, 11}"
    by (auto simp: bound_handles_def example_state_def split: if_splits)
  have c: "load_counter ?m (CounterOf 1) = Some 2" "load_counter ?m (CounterOf 2) = Some 1"
    "load_counter example_state (CounterOf 1) = Some 2"
    "load_counter example_state (CounterOf 2) = Some 1"
    by (simp_all add: example_state_def)
  from ret a b c bound_handles_example(1,2) show ?thesis
    by simp
qed

section \<open>The two files compared\<close>

text \<open>The two files agree on every operation but the copy assignment of
  \<^verbatim>\<open>RefCountable\<close>, and on that one too when calling a value returns the value.\<close>

lemma exec_part000_eq_exec_hpp:
  "(\<forall>a b. x \<noteq> CopyAssign a b) \<Longrightarrow> exec_part000 call moved x m = exec_hpp moved x m"
  by (cases x) simp_all

lemma exec_part000_call_id:
  "exec_part000 (\<lambda>v. v) moved x m = exec_hpp moved x m"
  by (cases x) (simp_all add: RefCountable_copy_assign_part000_def RefCountable_copy_assign_def)

lemma run_part000_eq_run_hpp:
  "(\<forall>x \<in> set xs. \<forall>a b. x \<noteq> CopyAssign a b) \<Longrightarrow>
   run (exec_part000 call moved) xs m = run (exec_hpp moved) xs m"
  by (induction xs arbitrary: m) (simp_all add: exec_part000_eq_exec_hpp split: sum.splits)

text \<open>
  \<^bold>\<open>C7.\<close> The claim is that the two files give the same stored value, counts and
  outcome on every sequence of operations. On the sequence that is one copy assignment
  of the container at 2 (holding 7) to the container at 1, with \<^verbatim>\<open>T\<close> a function
  object whose call yields the next number, \<^verbatim>\<open>RefCountable.hpp\<close> stores 7 and
  \<^verbatim>\<open>part_000\<close> stores 8.
\<close>

theorem implementations_differ_on_copy_assign:
  "\<exists>m1 m2. run (exec_hpp id) [CopyAssign 1 2] example_state = Inr m1 \<and>
          run (exec_part000 Suc id) [CopyAssign 1 2] example_state = Inr m2 \<and>
          load_T m1 (ValueOf 1) = Some 7 \<and> load_T m2 (ValueOf 1) = Some 8"
  by (simp add: RefCountable_copy_assign_part000_def RefCountable_copy_assign_def example_state_def)

section \<open>A run from the empty store\<close>

text \<open>
  A container holding 42 is created, a handle is bound to it, a second handle is copied
  from the first, both handles are destroyed and then the container: the run returns
  with an empty store. Destroying the container while the two handles are alive
  terminates the process.
\<close>

lemma run_bind_copy_destroy:
  "run (exec_hpp id)
     [Construct 1 (42::nat), Bind 10 1, HandleFromHandle 11 10,
      HandleDestroy 11, HandleDestroy 10, Destroy 1]
     \<lparr>objs = Map.empty, owning = Map.empty, bases = Map.empty, handles = Map.empty\<rparr> =
   Inr \<lparr>objs = Map.empty, owning = Map.empty, bases = Map.empty, handles = Map.empty\<rparr>"
  by (simp add: RefCountable_ctor_def RefCounted_from_RefCountable_def
      RefCounted_from_RefCounted_def RefCounted_dtor_def RefCountable_dtor_def Let_def)

lemma run_destroy_too_early:
  "run (exec_hpp id)
     [Construct 1 (42::nat), Bind 10 1, HandleFromHandle 11 10, Destroy 1]
     \<lparr>objs = Map.empty, owning = Map.empty, bases = Map.empty, handles = Map.empty\<rparr> =
   Inl Terminate"
  by (simp add: RefCountable_ctor_def RefCounted_from_RefCountable_def
      RefCounted_from_RefCounted_def RefCountable_dtor_def Let_def)

end
